theory Spec2Isabelle
  imports Complex_Main "HOL-Library.Word"
begin

unbundle bit_operations_syntax

section \<open>Strings and paths\<close>

text \<open>
  A Python \<open>str\<close> is modelled as a \<open>string\<close>: a list of characters with code points
  below 256. \<open>s.startswith(t)\<close> and \<open>s.endswith(t)\<close> are the prefix and suffix tests.
\<close>

definition startswith :: "string \<Rightarrow> string \<Rightarrow> bool" where
  "startswith s t = (take (length t) s = t)"

definition endswith :: "string \<Rightarrow> string \<Rightarrow> bool" where
  "endswith s t = (length t \<le> length s \<and> drop (length s - length t) s = t)"

text \<open>\<open>s.endswith(tuple(exts))\<close>: some member of the tuple is a suffix.\<close>

definition endswith_any :: "string \<Rightarrow> string list \<Rightarrow> bool" where
  "endswith_any s exts = list_ex (endswith s) exts"

text \<open>
  \<open>os.path.join(a, b)\<close> of \<open>posixpath\<close>: an absolute \<open>b\<close> replaces \<open>a\<close>; otherwise the
  two are put together with exactly one separator between them.
\<close>

definition path_join :: "string \<Rightarrow> string \<Rightarrow> string" where
  "path_join a b =
     (if startswith b ''/'' then b
      else if a = [] \<or> endswith a ''/'' then a @ b
      else a @ ''/'' @ b)"

section \<open>Regular expressions as \<open>re.match\<close> reads them\<close>

text \<open>
  The two patterns of the program use literals, character classes, negated classes,
  grouping, alternation, \<open>?\<close>, \<open>+\<close>, \<open>*\<close> and \<open>{36}\<close>. They are written as data and matched
  with Brzozowski derivatives; whether a backtracking matcher finds a match is exactly
  whether the string is in the language.
\<close>

datatype rexp =
    Zero
  | Eps
  | Chr char
  | Cls "char list"
  | NCls "char list"
  | Seq rexp rexp
  | Alt rexp rexp
  | Star rexp

fun nullable :: "rexp \<Rightarrow> bool" where
  "nullable Zero = False"
| "nullable Eps = True"
| "nullable (Chr a) = False"
| "nullable (Cls cs) = False"
| "nullable (NCls cs) = False"
| "nullable (Seq r s) = (nullable r \<and> nullable s)"
| "nullable (Alt r s) = (nullable r \<or> nullable s)"
| "nullable (Star r) = True"

fun deriv :: "char \<Rightarrow> rexp \<Rightarrow> rexp" where
  "deriv c Zero = Zero"
| "deriv c Eps = Zero"
| "deriv c (Chr a) = (if c = a then Eps else Zero)"
| "deriv c (Cls cs) = (if c \<in> set cs then Eps else Zero)"
| "deriv c (NCls cs) = (if c \<in> set cs then Zero else Eps)"
| "deriv c (Seq r s) =
     (if nullable r then Alt (Seq (deriv c r) s) (deriv c s) else Seq (deriv c r) s)"
| "deriv c (Alt r s) = Alt (deriv c r) (deriv c s)"
| "deriv c (Star r) = Seq (deriv c r) (Star r)"

fun fullmatch :: "rexp \<Rightarrow> string \<Rightarrow> bool" where
  "fullmatch r [] = nullable r"
| "fullmatch r (c # cs) = fullmatch (deriv c r) cs"

text \<open>
  The strings an expression matches as a whole, stated without reference to the matcher;
  \<open>fullmatch\<close> decides membership in this set (lemma \<open>fullmatch_lang\<close>).
\<close>

definition lang_seq :: "string set \<Rightarrow> string set \<Rightarrow> string set" where
  "lang_seq A B = {u @ v | u v. u \<in> A \<and> v \<in> B}"

inductive_set lang_star :: "string set \<Rightarrow> string set" for A :: "string set" where
  none: "[] \<in> lang_star A"
| more: "u \<in> A \<Longrightarrow> v \<in> lang_star A \<Longrightarrow> u @ v \<in> lang_star A"

fun lang :: "rexp \<Rightarrow> string set" where
  "lang Zero = {}"
| "lang Eps = {[]}"
| "lang (Chr a) = {[a]}"
| "lang (Cls cs) = {[c] | c. c \<in> set cs}"
| "lang (NCls cs) = {[c] | c. c \<notin> set cs}"
| "lang (Seq r s) = lang_seq (lang r) (lang s)"
| "lang (Alt r s) = lang r \<union> lang s"
| "lang (Star r) = lang_star (lang r)"

fun lit :: "string \<Rightarrow> rexp" where
  "lit [] = Eps"
| "lit (c # cs) = Seq (Chr c) (lit cs)"

definition ropt :: "rexp \<Rightarrow> rexp" where
  "ropt r = Alt r Eps"

definition rplus :: "rexp \<Rightarrow> rexp" where
  "rplus r = Seq r (Star r)"

fun rrep :: "nat \<Rightarrow> rexp \<Rightarrow> rexp" where
  "rrep 0 r = Eps"
| "rrep (Suc n) r = Seq r (rrep n r)"

definition newline :: char where
  "newline = CHR 0x0A"

text \<open>
  \<open>re.match('^' + r + '$', s)\<close> without flags. \<open>^\<close> holds at position 0, where
  \<open>re.match\<close> starts. \<open>$\<close> holds at the end of the string and also just before a
  newline that is the string's last character, so the body \<open>r\<close> has to cover either
  all of \<open>s\<close> or all of \<open>s\<close> but a final newline.
\<close>

definition re_match :: "rexp \<Rightarrow> string \<Rightarrow> bool" where
  "re_match r s =
     (fullmatch r s \<or> (s \<noteq> [] \<and> last s = newline \<and> fullmatch r (butlast s)))"

text \<open>
  \<open>\s\<close> in a \<open>str\<close> pattern is \<open>str.isspace\<close>; below code point 256 these are
  the characters 0x09 to 0x0D, 0x1C to 0x1F, 0x20, 0x85 and 0xA0.
\<close>

definition whitespace :: "char list" where
  "whitespace = [CHR 0x09, CHR 0x0A, CHR 0x0B, CHR 0x0C, CHR 0x0D, CHR 0x1C, CHR 0x1D,
                 CHR 0x1E, CHR 0x1F, CHR 0x20, CHR 0x85, CHR 0xA0]"

text \<open>
  \<^verbatim>\<open>^(https?://)?(www\.)?(youtube\.com/watch\?v=|youtu\.be/)[A-Za-z0-9_-]+([\?&][^&\s]*)*$\<close>
\<close>

definition youtube_regex :: rexp where
  "youtube_regex =
     Seq (ropt (Seq (lit ''http'') (Seq (ropt (Chr CHR ''s'')) (lit ''://''))))
    (Seq (ropt (lit ''www.''))
    (Seq (Alt (lit ''youtube.com/watch?v='') (lit ''youtu.be/''))
    (Seq (rplus (Cls ''ABCDEFGHIJKLMNOPQRSTUVWXYZabcdefghijklmnopqrstuvwxyz0123456789_-''))
         (Star (Seq (Cls ''?&'') (Star (NCls (CHR ''&'' # whitespace))))))))"

text \<open>\<^verbatim>\<open>^[0-9a-f-]{36}$\<close>\<close>

definition file_id_chars :: "char list" where
  "file_id_chars = ''0123456789abcdef-''"

definition file_id_regex :: rexp where
  "file_id_regex = rrep 36 (Cls file_id_chars)"

section \<open>Exceptions and HTTP responses\<close>

text \<open>
  Every exception the program raises or catches. All of them, \<open>HTTPException\<close>
  included, are subclasses of Python's \<open>Exception\<close>, so an \<open>except Exception\<close> clause
  catches each constructor.
\<close>

datatype exn =
    HTTPException nat string
  | ValueError string
  | KeyError string
  | FileNotFoundError string
  | CalledProcessError int string
  | ValidationError "string list"

section \<open>Request model (\<open>ConvertRequest\<close>)\<close>

record ConvertRequest =
  youtube_url :: string
  quality :: string

definition validate_youtube_url :: "string \<Rightarrow> exn + string" where
  "validate_youtube_url v =
     (if \<not> re_match youtube_regex v
      then Inl (ValueError ''Invalid YouTube URL. Please provide a valid YouTube video URL.'')
      else Inr v)"

definition validate_quality :: "string \<Rightarrow> exn + string" where
  "validate_quality v =
     (if v \<notin> set [''high'', ''medium'', ''low'']
      then Inl (ValueError ''Quality must be high, medium, or low'')
      else Inr v)"

fun error_messages :: "(exn + string) \<Rightarrow> string list" where
  "error_messages (Inl (ValueError m)) = [m]"
| "error_messages (Inl e) = []"
| "error_messages (Inr v) = []"

text \<open>
  Building the model from a request body: each field validator runs on its field, a
  missing \<open>quality\<close> takes the default \<open>"high"\<close> (the validator is not run on a
  default), and the construction fails with one \<open>ValidationError\<close> that collects the
  validators' \<open>ValueError\<close>s.
\<close>

definition ConvertRequest_init :: "string \<Rightarrow> string option \<Rightarrow> exn + ConvertRequest" where
  "ConvertRequest_init url q =
     (let u = validate_youtube_url url;
          k = (case q of None \<Rightarrow> Inr ''high'' | Some v \<Rightarrow> validate_quality v)
      in case (u, k) of
           (Inr u', Inr k') \<Rightarrow> Inr \<lparr>youtube_url = u', quality = k'\<rparr>
         | _ \<Rightarrow> Inl (ValidationError (error_messages u @ error_messages k)))"

section \<open>Configuration\<close>

definition MAX_FILE_SIZE_MB :: nat where
  "MAX_FILE_SIZE_MB = 100"

definition FILE_RETENTION_HOURS :: int where
  "FILE_RETENTION_HOURS = 24"

definition ALLOWED_EXTENSIONS :: "string list" where
  "ALLOWED_EXTENSIONS = [''.mp3'']"

section \<open>The host: storage directory, disk and clock\<close>

text \<open>
  What the program reads from and writes to its host. The storage directory is a flat
  directory; each entry is a regular file or a symbolic link to an existing file, and an
  entry's attributes are those \<open>os.stat\<close> reports (for a link: the target's). Times are
  the naive local \<open>datetime\<close> values the program computes with, counted in microseconds,
  which is the resolution of \<open>datetime\<close> and \<open>timedelta\<close>.
\<close>

record file_entry =
  mtime :: int
  fsize :: nat
  readable :: bool
  link_target :: "string option"

record host =
  app_dir :: string
  folder_realpath :: string
  entries :: "(string \<times> file_entry) list"
  free_bytes :: nat

text \<open>\<open>DOWNLOAD_FOLDER = os.path.join(os.path.dirname(__file__), "downloads")\<close>\<close>

definition DOWNLOAD_FOLDER :: "host \<Rightarrow> string" where
  "DOWNLOAD_FOLDER h = path_join (app_dir h) ''downloads''"

text \<open>
  The names of a directory listing are distinct, not empty and free of separators.
\<close>

definition valid_name :: "string \<Rightarrow> bool" where
  "valid_name n = (n \<noteq> [] \<and> CHR ''/'' \<notin> set n)"

definition wf_host :: "host \<Rightarrow> bool" where
  "wf_host h = (distinct (map fst (entries h)) \<and> list_all valid_name (map fst (entries h)))"

definition os_listdir :: "host \<Rightarrow> string list" where
  "os_listdir h = map fst (entries h)"

definition stat_path :: "host \<Rightarrow> string \<Rightarrow> file_entry option" where
  "stat_path h p = map_of (map (\<lambda>(n, e). (path_join (DOWNLOAD_FOLDER h) n, e)) (entries h)) p"

definition os_path_exists :: "host \<Rightarrow> string \<Rightarrow> bool" where
  "os_path_exists h p = (stat_path h p \<noteq> None)"

definition os_access_R_OK :: "host \<Rightarrow> string \<Rightarrow> bool" where
  "os_access_R_OK h p = (case stat_path h p of None \<Rightarrow> False | Some e \<Rightarrow> readable e)"

definition os_path_getmtime :: "host \<Rightarrow> string \<Rightarrow> exn + int" where
  "os_path_getmtime h p =
     (case stat_path h p of None \<Rightarrow> Inl (FileNotFoundError p) | Some e \<Rightarrow> Inr (mtime e))"

definition os_path_getsize :: "host \<Rightarrow> string \<Rightarrow> exn + nat" where
  "os_path_getsize h p =
     (case stat_path h p of None \<Rightarrow> Inl (FileNotFoundError p) | Some e \<Rightarrow> Inr (fsize e))"

definition os_remove :: "host \<Rightarrow> string \<Rightarrow> exn + host" where
  "os_remove h p =
     (case stat_path h p of
        None \<Rightarrow> Inl (FileNotFoundError p)
      | Some e \<Rightarrow>
          Inr (h\<lparr>entries := filter (\<lambda>(n, e). path_join (DOWNLOAD_FOLDER h) n \<noteq> p) (entries h)\<rparr>))"

text \<open>
  \<open>os.path.realpath\<close> on the storage directory and on a path \<open>DOWNLOAD_FOLDER/name\<close>
  directly below it, the only paths the program resolves: the directory resolves to
  \<open>folder_realpath\<close>, a symbolic link to its target, and any other name (a regular file
  or no entry at all) to that name below the resolved directory.
\<close>

definition os_path_realpath :: "host \<Rightarrow> string \<Rightarrow> string" where
  "os_path_realpath h p =
     (if p = DOWNLOAD_FOLDER h then folder_realpath h
      else case map_option link_target (stat_path h p) of
             Some (Some t) \<Rightarrow> t
           | _ \<Rightarrow> path_join (folder_realpath h) (drop (Suc (length (DOWNLOAD_FOLDER h))) p))"

section \<open>Retention sweeper (\<open>cleanup_old_files\<close>)\<close>

definition timedelta_hours :: "int \<Rightarrow> int" where
  "timedelta_hours n = n * 3600 * 1000000"

text \<open>
  The age test of the sweep, \<open>now - file_modified > timedelta(hours=FILE_RETENTION_HOURS)\<close>.
\<close>

definition expired :: "int \<Rightarrow> int \<Rightarrow> bool" where
  "expired now file_modified = (now - file_modified > timedelta_hours FILE_RETENTION_HOURS)"

text \<open>
  The \<open>for\<close> loop over the listing. An exception leaves the loop at once; what was
  removed before stays removed, so the host is returned with the exception.
\<close>

fun sweep_files :: "int \<Rightarrow> string list \<Rightarrow> host \<Rightarrow> exn option \<times> host" where
  "sweep_files now [] h = (None, h)"
| "sweep_files now (filename # rest) h =
     (let filepath = path_join (DOWNLOAD_FOLDER h) filename
      in case os_path_getmtime h filepath of
           Inl e \<Rightarrow> (Some e, h)
         | Inr file_modified \<Rightarrow>
             if expired now file_modified
             then (case os_remove h filepath of
                     Inl e \<Rightarrow> (Some e, h)
                   | Inr h' \<Rightarrow> sweep_files now rest h')
             else sweep_files now rest h)"

text \<open>
  One iteration of the \<open>while True\<close> loop at clock reading \<open>now\<close>: the sweep inside
  \<open>try\<close>, the caught exception (which the program prints), and the number of seconds
  the iteration then sleeps.
\<close>

record sweep_result =
  host_after_sweep :: host
  caught :: "exn option"
  sleep_seconds :: nat

definition cleanup_iteration :: "int \<Rightarrow> host \<Rightarrow> sweep_result" where
  "cleanup_iteration now h =
     (let (err, h') = sweep_files now (os_listdir h) h
      in \<lparr>host_after_sweep = h', caught = err, sleep_seconds = 3600\<rparr>)"

text \<open>
  The loop has no exit. It is run here for as many iterations as clock readings are
  supplied, one per iteration, and returns the sleeps it asked for and the host it
  leaves.
\<close>

fun cleanup_old_files :: "int list \<Rightarrow> host \<Rightarrow> nat list \<times> host" where
  "cleanup_old_files [] h = ([], h)"
| "cleanup_old_files (now # later) h =
     (let r = cleanup_iteration now h;
          (sleeps, h') = cleanup_old_files later (host_after_sweep r)
      in (sleep_seconds r # sleeps, h'))"

section \<open>Extraction job (\<open>download_audio\<close>)\<close>

definition quality_options :: "string \<Rightarrow> string list option" where
  "quality_options = map_of
     [(''high'', [''--audio-quality'', ''0'']),
      (''medium'', [''--audio-quality'', ''5'']),
      (''low'', [''--audio-quality'', ''9''])]"

fun str_nat :: "nat \<Rightarrow> string" where
  "str_nat n =
     (if n < 10 then [''0123456789'' ! n] else str_nat (n div 10) @ [''0123456789'' ! (n mod 10)])"

declare str_nat.simps [simp del]

text \<open>
  What \<open>subprocess.run(command, capture_output=True, text=True)\<close> returns once the
  external tool has exited: its exit status, its standard error, and the host as the
  tool left it. The tool itself is a parameter of the job.
\<close>

record completed_process =
  returncode :: int
  stderr :: string
  host_after_run :: host

text \<open>The command line of the external tool.\<close>

definition yt_dlp_command :: "string list \<Rightarrow> string \<Rightarrow> string \<Rightarrow> string list" where
  "yt_dlp_command opts filename url =
     [''yt-dlp'', ''-x'', ''--audio-format'', ''mp3''] @ opts @
     [''--max-filesize'', str_nat MAX_FILE_SIZE_MB @ ''M'', ''-o'', filename, url]"

definition file_size_mb :: "nat \<Rightarrow> rat" where
  "file_size_mb n = of_nat n / (1024 * 1024)"

text \<open>
  The job returns the exception it ends with, if any, and the host it leaves.
  \<open>check=True\<close> turns a non-zero exit status into \<open>CalledProcessError\<close>, the one
  exception the \<open>except\<close> clause handles; the three other exceptions leave the function
  as they are. \<open>file_size_mb\<close> is a quotient of the size by a power of two, which
  Python's float division gives exactly for a size below \<open>2^53\<close> and monotonically
  above, so its comparison with 100 is the comparison of the exact quotient.
\<close>

definition download_audio ::
  "(string list \<Rightarrow> host \<Rightarrow> completed_process) \<Rightarrow> host \<Rightarrow> string \<Rightarrow> string \<Rightarrow> string
     \<Rightarrow> exn option \<times> host" where
  "download_audio run h url qual filename =
     (case quality_options qual of
        None \<Rightarrow> (Some (KeyError qual), h)
      | Some opts \<Rightarrow>
          let command = yt_dlp_command opts filename url;
              result = run command h;
              h1 = host_after_run result
          in if returncode result \<noteq> 0
             then (if os_path_exists h1 filename
                   then (case os_remove h1 filename of
                           Inl e \<Rightarrow> (Some e, h1)
                         | Inr h2 \<Rightarrow>
                             (Some (ValueError (''YouTube download failed: '' @ stderr result)), h2))
                   else (Some (ValueError (''YouTube download failed: '' @ stderr result)), h1))
             else if os_path_exists h1 filename
             then (case os_path_getsize h1 filename of
                     Inl e \<Rightarrow> (Some e, h1)
                   | Inr n \<Rightarrow>
                       if file_size_mb n > of_nat MAX_FILE_SIZE_MB
                       then (case os_remove h1 filename of
                               Inl e \<Rightarrow> (Some e, h1)
                             | Inr h2 \<Rightarrow>
                                 (Some (ValueError (''File size exceeds limit of '' @
                                    str_nat MAX_FILE_SIZE_MB @ ''MB'')), h2))
                       else (None, h1))
             else (Some (FileNotFoundError ''Failed to create output file''), h1))"

section \<open>Tokens (\<open>str(uuid.uuid4())\<close>)\<close>

text \<open>
  \<open>uuid.uuid4()\<close> takes 128 random bits and overwrites the variant and version
  fields; \<open>str\<close> prints the 128 bits as 32 lower-case hexadecimal digits in groups of
  8, 4, 4, 4 and 12 with hyphens between them. The random bits are an argument.
\<close>

definition uuid4 :: "128 word \<Rightarrow> 128 word" where
  "uuid4 r =
     (((r AND NOT (push_bit 48 0xc000)) OR push_bit 48 0x8000)
        AND NOT (push_bit 64 0xf000)) OR push_bit 76 4"

definition hex32 :: "128 word \<Rightarrow> string" where
  "hex32 w = map (\<lambda>i. ''0123456789abcdef'' ! unat (drop_bit (4 * (31 - i)) w AND 0xF)) [0..<32]"

definition uuid_str :: "128 word \<Rightarrow> string" where
  "uuid_str w =
     (let hex = hex32 w
      in take 8 hex @ ''-'' @ take 4 (drop 8 hex) @ ''-'' @ take 4 (drop 12 hex) @ ''-'' @
         take 4 (drop 16 hex) @ ''-'' @ drop 20 hex)"

section \<open>Conversion endpoint (\<open>convert\<close>)\<close>

record convert_response =
  download_url :: string
  status :: string
  message :: string
  estimated_wait_time :: string

text \<open>A scheduled call \<open>download_audio(youtube_url, quality, filename)\<close>, not yet run.\<close>

datatype background_task = DownloadAudio string string string

definition add_task :: "background_task list \<Rightarrow> background_task \<Rightarrow> exn + background_task list" where
  "add_task tasks t = Inr (tasks @ [t])"

text \<open>
  The handler returns its result (the response body or the exception it raises) and
  the list of background tasks, which the framework runs after the response is sent.
\<close>

definition convert ::
  "host \<Rightarrow> 128 word \<Rightarrow> ConvertRequest \<Rightarrow> background_task list
     \<Rightarrow> (exn + convert_response) \<times> background_task list" where
  "convert h rnd convert_request background_tasks =
     (let file_id = uuid_str (uuid4 rnd);
          output_path = path_join (DOWNLOAD_FOLDER h) (file_id @ ''.mp3'');
          free = free_bytes h
      in if free < MAX_FILE_SIZE_MB * 1024 * 1024 * 2
         then (Inl (HTTPException 507 ''Insufficient storage space. Please try again later.''),
               background_tasks)
         else (case add_task background_tasks
                      (DownloadAudio (youtube_url convert_request) (quality convert_request)
                         output_path) of
                 Inr tasks \<Rightarrow>
                   (Inr \<lparr>download_url = ''/download/'' @ file_id,
                         status = ''processing'',
                         message = ''Your file is being processed. Please wait a few moments before downloading.'',
                         estimated_wait_time = ''15-30 seconds''\<rparr>, tasks)
               | Inl (ValueError m) \<Rightarrow> (Inl (HTTPException 400 m), background_tasks)
               | Inl e \<Rightarrow>
                   (Inl (HTTPException 500 ''An unexpected error occurred. Please try again later.''),
                    background_tasks)))"

section \<open>Download endpoint (\<open>download\<close>)\<close>

record FileResponse =
  served_path :: string
  media_type :: string
  suggested_filename :: string

text \<open>Constructing the response object reads nothing and raises nothing.\<close>

definition FileResponse_init :: "string \<Rightarrow> string \<Rightarrow> string \<Rightarrow> exn + FileResponse" where
  "FileResponse_init p m n = Inr \<lparr>served_path = p, media_type = m, suggested_filename = n\<rparr>"

text \<open>The calls the handler makes into the file system, in the order it makes them.\<close>

datatype fs_call = Realpath string | Exists string | Access string

text \<open>
  The handler returns its result and the file system calls it made. \<open>stamp\<close> is
  \<open>datetime.now().strftime('%Y%m%d_%H%M%S')\<close>. The \<open>try\<close> block that resolves the path
  ends in \<open>except Exception\<close>, which catches whatever the block raises and raises the
  400 of its own instead.
\<close>

definition download :: "host \<Rightarrow> string \<Rightarrow> string \<Rightarrow> (exn + FileResponse) \<times> fs_call list" where
  "download h stamp file_id =
     (if \<not> re_match file_id_regex file_id
      then (Inl (HTTPException 400 ''Invalid file ID format''), [])
      else
        let filename = file_id @ ''.mp3''
        in if \<not> endswith_any filename ALLOWED_EXTENSIONS
           then (Inl (HTTPException 400 ''Invalid file type requested''), [])
           else
             let path = path_join (DOWNLOAD_FOLDER h) filename;
                 real_path = os_path_realpath h path;
                 resolved = [Realpath path, Realpath (DOWNLOAD_FOLDER h)];
                 try_block =
                   (if \<not> startswith real_path (os_path_realpath h (DOWNLOAD_FOLDER h))
                    then Inl (HTTPException 403 ''Access denied'')
                    else Inr ())
             in case try_block of
                  Inl e \<Rightarrow> (Inl (HTTPException 400 ''Invalid file path''), resolved)
                | Inr u \<Rightarrow>
                    if \<not> os_path_exists h path
                    then (Inl (HTTPException 404
                            ''File not found. It might still be processing or has expired.''),
                          resolved @ [Exists path])
                    else if \<not> os_access_R_OK h path
                    then (Inl (HTTPException 500
                            ''Server cannot access the file. Please try again later.''),
                          resolved @ [Exists path, Access path])
                    else (case FileResponse_init path ''audio/mpeg''
                                 (''youtube_audio_'' @ stamp @ ''.mp3'') of
                            Inr f \<Rightarrow> (Inr f, resolved @ [Exists path, Access path])
                          | Inl e \<Rightarrow>
                              (Inl (HTTPException 500
                                 ''Failed to send file. Please try again later.''),
                               resolved @ [Exists path, Access path])))"

section \<open>The routes\<close>

datatype content =
    Detail string
  | ValidationDetail "string list"
  | ConvertBody convert_response
  | FileBody FileResponse

record http_response =
  status_code :: nat
  body :: content

text \<open>
  How the framework answers an exception. main.py registers a handler for
  \<open>RateLimitExceeded\<close> only, so FastAPI's own handlers stand: an \<open>HTTPException\<close>
  becomes a response with its status code and detail, a request body that fails the
  request model's validation becomes 422, and any other exception becomes 500. The rate
  limiter itself is not part of the model.
\<close>

fun exception_response :: "exn \<Rightarrow> http_response" where
  "exception_response (HTTPException code detail) = \<lparr>status_code = code, body = Detail detail\<rparr>"
| "exception_response (ValidationError ms) = \<lparr>status_code = 422, body = ValidationDetail ms\<rparr>"
| "exception_response e = \<lparr>status_code = 500, body = Detail ''Internal Server Error''\<rparr>"

text \<open>
  POST /convert: the body is parsed into the request model before the handler is
  called; the handler runs only on a valid model.
\<close>

definition post_convert ::
  "host \<Rightarrow> 128 word \<Rightarrow> string \<Rightarrow> string option \<Rightarrow> background_task list
     \<Rightarrow> http_response \<times> background_task list" where
  "post_convert h rnd url q background_tasks =
     (case ConvertRequest_init url q of
        Inl e \<Rightarrow> (exception_response e, background_tasks)
      | Inr convert_request \<Rightarrow>
          (case convert h rnd convert_request background_tasks of
             (Inl e, tasks) \<Rightarrow> (exception_response e, tasks)
           | (Inr r, tasks) \<Rightarrow> (\<lparr>status_code = 200, body = ConvertBody r\<rparr>, tasks)))"

text \<open>GET /download/{file_id}\<close>

definition get_download :: "host \<Rightarrow> string \<Rightarrow> string \<Rightarrow> http_response \<times> fs_call list" where
  "get_download h stamp file_id =
     (case download h stamp file_id of
        (Inl e, calls) \<Rightarrow> (exception_response e, calls)
      | (Inr f, calls) \<Rightarrow> (\<lparr>status_code = 200, body = FileBody f\<rparr>, calls))"

section \<open>Example hosts and tokens\<close>

definition example_host :: host where
  "example_host = \<lparr>app_dir = ''/srv/app'', folder_realpath = ''/srv/app/downloads'',
     entries = [], free_bytes = 1000000000\<rparr>"

definition example_token :: string where
  "example_token = ''123e4567-e89b-42d3-a456-426614174000''"

definition newline_token :: string where
  "newline_token = example_token @ [newline]"

text \<open>The storage directory holds the token's file: a readable regular file.\<close>

definition stored_host :: host where
  "stored_host = example_host\<lparr>entries :=
     [(example_token @ ''.mp3'',
       \<lparr>mtime = 0, fsize = 4000000, readable = True, link_target = None\<rparr>)]\<rparr>"

text \<open>The token's entry is a symbolic link that leads out of the storage directory.\<close>

definition symlink_host :: host where
  "symlink_host = example_host\<lparr>entries :=
     [(example_token @ ''.mp3'',
       \<lparr>mtime = 0, fsize = 2000, readable = True, link_target = Some ''/etc/passwd''\<rparr>)]\<rparr>"

text \<open>
  Three files in the storage directory, seen at a clock reading of 25 hours: one
  modified 25 hours ago, one 24 hours ago and one 23 hours ago.
\<close>

definition aged_host :: host where
  "aged_host = example_host\<lparr>entries :=
     [(''old.mp3'', \<lparr>mtime = 0, fsize = 1000, readable = True, link_target = None\<rparr>),
      (''day.mp3'', \<lparr>mtime = 3600000000, fsize = 1000, readable = True, link_target = None\<rparr>),
      (''new.mp3'', \<lparr>mtime = 7200000000, fsize = 1000, readable = True, link_target = None\<rparr>)]\<rparr>"

text \<open>
  Two runs of the external tool on the example host: one exits with status 1 and leaves
  a partial file at the destination, one exits with status 0 and leaves a file of 200 MB.
\<close>

definition example_output :: string where
  "example_output = ''/srv/app/downloads/123e4567-e89b-42d3-a456-426614174000.mp3''"

definition failing_tool :: "string list \<Rightarrow> host \<Rightarrow> completed_process" where
  "failing_tool command h =
     \<lparr>returncode = 1, stderr = ''ERROR: Video unavailable'',
      host_after_run = h\<lparr>entries := (example_token @ ''.mp3'',
        \<lparr>mtime = 0, fsize = 5000, readable = True, link_target = None\<rparr>) # entries h\<rparr>\<rparr>"

definition oversize_tool :: "string list \<Rightarrow> host \<Rightarrow> completed_process" where
  "oversize_tool command h =
     \<lparr>returncode = 0, stderr = [],
      host_after_run = h\<lparr>entries := (example_token @ ''.mp3'',
        \<lparr>mtime = 0, fsize = 209715200, readable = True, link_target = None\<rparr>) # entries h\<rparr>\<rparr>"

section \<open>The matcher decides the language\<close>

lemma nullable_lang: "nullable r = ([] \<in> lang r)"
  by (induction r) (auto simp: lang_seq_def intro: lang_star.none)

lemma tail_lang_seq:
  "{w. c # w \<in> lang_seq A B} =
     lang_seq {w. c # w \<in> A} B \<union> (if [] \<in> A then {w. c # w \<in> B} else {})"
proof -
  have "(\<exists>u v. c # w = u @ v \<and> u \<in> A \<and> v \<in> B) =
        ((\<exists>u' v. w = u' @ v \<and> c # u' \<in> A \<and> v \<in> B) \<or> ([] \<in> A \<and> c # w \<in> B))" for w
    by (auto simp: Cons_eq_append_conv)
  then show ?thesis
    by (auto simp: lang_seq_def)
qed

lemma tail_lang_star_sub:
  assumes "x \<in> lang_star A" and "x = c # w"
  shows "w \<in> lang_seq {w. c # w \<in> A} (lang_star A)"
  using assms
proof (induction arbitrary: w rule: lang_star.induct)
  case none
  then show ?case by simp
next
  case (more u v)
  show ?case
  proof (cases u)
    case Nil
    with more show ?thesis by simp
  next
    case (Cons a u')
    with more.prems have "a = c" "w = u' @ v" by simp_all
    with more.hyps Cons show ?thesis
      by (auto simp: lang_seq_def)
  qed
qed

lemma tail_lang_star:
  "{w. c # w \<in> lang_star A} = lang_seq {w. c # w \<in> A} (lang_star A)"
proof
  show "{w. c # w \<in> lang_star A} \<subseteq> lang_seq {w. c # w \<in> A} (lang_star A)"
    using tail_lang_star_sub by blast
next
  show "lang_seq {w. c # w \<in> A} (lang_star A) \<subseteq> {w. c # w \<in> lang_star A}"
  proof
    fix w assume "w \<in> lang_seq {w. c # w \<in> A} (lang_star A)"
    then obtain u v where "w = u @ v" "c # u \<in> A" "v \<in> lang_star A"
      by (auto simp: lang_seq_def)
    then have "(c # u) @ v \<in> lang_star A" by (intro lang_star.more)
    with \<open>w = u @ v\<close> show "w \<in> {w. c # w \<in> lang_star A}" by simp
  qed
qed

lemma lang_deriv: "lang (deriv c r) = {w. c # w \<in> lang r}"
proof (induction r)
  case (Seq r s)
  then show ?case
    by (auto simp: tail_lang_seq nullable_lang)
next
  case (Star r)
  then show ?case
    by (simp add: tail_lang_star)
qed auto

lemma fullmatch_lang: "fullmatch r w = (w \<in> lang r)"
  by (induction w arbitrary: r) (simp_all add: nullable_lang lang_deriv)

section \<open>The two patterns\<close>

lemma fullmatch_Zero: "\<not> fullmatch Zero w"
  by (induction w) auto

lemma fullmatch_Alt: "fullmatch (Alt r s) w = (fullmatch r w \<or> fullmatch s w)"
  by (induction w arbitrary: r s) auto

lemma fullmatch_Seq_Zero: "\<not> fullmatch (Seq Zero r) w"
  by (induction w) auto

lemma fullmatch_Seq_Eps: "fullmatch (Seq Eps r) w = fullmatch r w"
  by (cases w) (auto simp: fullmatch_Alt fullmatch_Seq_Zero)

lemma fullmatch_Seq_Cls:
  "fullmatch (Seq (Cls cs) r) w = (\<exists>c w'. w = c # w' \<and> c \<in> set cs \<and> fullmatch r w')"
  by (cases w) (auto simp: fullmatch_Seq_Eps fullmatch_Seq_Zero)

lemma fullmatch_rrep_Cls:
  "fullmatch (rrep n (Cls cs)) w = (length w = n \<and> set w \<subseteq> set cs)"
proof (induction n arbitrary: w)
  case 0
  show ?case by (cases w) (auto simp: fullmatch_Zero)
next
  case (Suc n)
  show ?case unfolding rrep.simps fullmatch_Seq_Cls Suc by (cases w) auto
qed

lemma re_match_file_id:
  "re_match file_id_regex t =
     ((length t = 36 \<and> set t \<subseteq> set file_id_chars) \<or>
      (length t = 37 \<and> last t = newline \<and> set (butlast t) \<subseteq> set file_id_chars))"
  by (auto simp: re_match_def file_id_regex_def fullmatch_rrep_Cls)

section \<open>Facts about paths\<close>

lemma startswith_append: "startswith (a @ b) a"
  by (simp add: startswith_def)

lemma startswith_path_join: "\<not> startswith b ''/'' \<Longrightarrow> startswith (path_join a b) a"
  by (simp add: path_join_def startswith_def)

lemma endswith_append: "endswith (a @ b) b"
  by (simp add: endswith_def)

lemma endswith_iff: "endswith s t = (\<exists>p. s = p @ t)"
proof
  assume "endswith s t"
  then have "s = take (length s - length t) s @ t"
    by (metis append_take_drop_id endswith_def)
  then show "\<exists>p. s = p @ t" ..
next
  assume "\<exists>p. s = p @ t"
  then show "endswith s t" by (auto simp: endswith_def)
qed

lemma endswith_path_join: "endswith b e \<Longrightarrow> endswith (path_join a b) e"
proof -
  assume "endswith b e"
  then obtain p where b: "b = p @ e" by (auto simp: endswith_iff)
  have "\<exists>q. path_join a b = q @ b"
    unfolding path_join_def
    by (metis append_Nil append_assoc)
  then obtain q where "path_join a b = (q @ p) @ e" using b by auto
  then show ?thesis unfolding endswith_iff by blast
qed

lemma DOWNLOAD_FOLDER_shape: "\<exists>p. DOWNLOAD_FOLDER h = p @ ''downloads''"
  by (auto simp: DOWNLOAD_FOLDER_def path_join_def startswith_def intro: exI[of _ "[]"])

lemma DOWNLOAD_FOLDER_nonempty: "DOWNLOAD_FOLDER h \<noteq> []"
  using DOWNLOAD_FOLDER_shape[of h] by auto

lemma DOWNLOAD_FOLDER_no_slash: "\<not> endswith (DOWNLOAD_FOLDER h) ''/''"
  using DOWNLOAD_FOLDER_shape[of h] by (auto simp: endswith_def)

lemma path_join_DOWNLOAD_FOLDER:
  "\<not> startswith b ''/'' \<Longrightarrow> path_join (DOWNLOAD_FOLDER h) b = DOWNLOAD_FOLDER h @ ''/'' @ b"
  by (simp add: path_join_def DOWNLOAD_FOLDER_nonempty DOWNLOAD_FOLDER_no_slash)

lemma file_id_not_absolute:
  assumes "re_match file_id_regex t"
  shows "\<not> startswith (t @ e) ''/''"
proof -
  from assms have "t \<noteq> [] \<and> hd t \<in> set file_id_chars"
    unfolding re_match_file_id
  proof (elim disjE conjE)
    assume "length t = 36" "set t \<subseteq> set file_id_chars"
    then show ?thesis by (cases t) auto
  next
    assume a: "length t = 37" "set (butlast t) \<subseteq> set file_id_chars"
    then obtain c u where t: "t = c # u" by (cases t) auto
    with a have "u \<noteq> []" by auto
    with t a show ?thesis by auto
  qed
  then show ?thesis
    by (cases t) (auto simp: startswith_def file_id_chars_def)
qed

section \<open>Download endpoint: the extension check\<close>

lemma endswith_any_mp3: "endswith_any (file_id @ ''.mp3'') ALLOWED_EXTENSIONS"
  by (simp add: endswith_any_def ALLOWED_EXTENSIONS_def endswith_def)

text \<open>
  C10. In the download handler the file name is the token followed by \<open>.mp3\<close>, so the
  check \<open>filename.endswith(tuple(ALLOWED_EXTENSIONS))\<close> holds for every token, and the
  handler never raises the 400 "Invalid file type requested".
\<close>

theorem C10_extension_check_never_fails:
  "endswith_any (file_id @ ''.mp3'') ALLOWED_EXTENSIONS \<and>
   fst (download h stamp file_id) \<noteq> Inl (HTTPException 400 ''Invalid file type requested'')"
  by (simp add: endswith_any_mp3 download_def FileResponse_init_def Let_def split: sum.splits)

section \<open>Download endpoint\<close>

lemma example_token_ok: "fullmatch file_id_regex example_token"
  unfolding file_id_regex_def fullmatch_rrep_Cls
  by (simp add: example_token_def file_id_chars_def)

lemma example_token_match: "re_match file_id_regex example_token"
  by (simp add: re_match_def example_token_ok)

lemma newline_token_match: "re_match file_id_regex newline_token"
  by (simp add: re_match_def newline_token_def example_token_ok)

lemma example_folder [simp]:
  "DOWNLOAD_FOLDER example_host = ''/srv/app/downloads''"
  "DOWNLOAD_FOLDER stored_host = ''/srv/app/downloads''"
  "DOWNLOAD_FOLDER symlink_host = ''/srv/app/downloads''"
  by (simp_all add: DOWNLOAD_FOLDER_def example_host_def stored_host_def symlink_host_def
        path_join_def startswith_def endswith_def)

lemma example_path:
  "path_join ''/srv/app/downloads'' (example_token @ ''.mp3'') =
     ''/srv/app/downloads/123e4567-e89b-42d3-a456-426614174000.mp3''"
  by (simp add: path_join_def startswith_def endswith_def example_token_def)

lemma symlink_host_realpath: "os_path_realpath symlink_host (path_join (DOWNLOAD_FOLDER symlink_host) (example_token @ ''.mp3'')) = ''/etc/passwd''"
  by (simp add: example_path os_path_realpath_def stat_path_def)
     (simp add: symlink_host_def example_host_def example_token_def path_join_def startswith_def endswith_def)


lemma download_rejects:
  "\<not> re_match file_id_regex file_id \<Longrightarrow>
   download h stamp file_id = (Inl (HTTPException 400 ''Invalid file ID format''), [])"
  by (simp add: download_def)

lemma download_escape:
  assumes "re_match file_id_regex file_id"
    and "\<not> startswith (os_path_realpath h (path_join (DOWNLOAD_FOLDER h) (file_id @ ''.mp3'')))
             (os_path_realpath h (DOWNLOAD_FOLDER h))"
  shows "download h stamp file_id =
     (Inl (HTTPException 400 ''Invalid file path''),
      [Realpath (path_join (DOWNLOAD_FOLDER h) (file_id @ ''.mp3'')), Realpath (DOWNLOAD_FOLDER h)])"
  using assms by (simp add: download_def FileResponse_init_def endswith_any_mp3 Let_def)

lemma realpath_folder: "os_path_realpath h (DOWNLOAD_FOLDER h) = folder_realpath h"
  by (simp add: os_path_realpath_def)

lemma realpath_missing:
  assumes "re_match file_id_regex file_id"
    and "\<not> os_path_exists h (path_join (DOWNLOAD_FOLDER h) (file_id @ ''.mp3''))"
  shows "os_path_realpath h (path_join (DOWNLOAD_FOLDER h) (file_id @ ''.mp3'')) =
         path_join (folder_realpath h) (file_id @ ''.mp3'')"
proof -
  have na: "\<not> startswith (file_id @ ''.mp3'') ''/''"
    using assms(1) by (rule file_id_not_absolute)
  have p: "path_join (DOWNLOAD_FOLDER h) (file_id @ ''.mp3'') =
           DOWNLOAD_FOLDER h @ ''/'' @ file_id @ ''.mp3''"
    using path_join_DOWNLOAD_FOLDER[OF na] by simp
  have ne: "DOWNLOAD_FOLDER h @ ''/'' @ file_id @ ''.mp3'' \<noteq> DOWNLOAD_FOLDER h"
    by simp
  have st: "stat_path h (DOWNLOAD_FOLDER h @ ''/'' @ file_id @ ''.mp3'') = None"
    using assms(2) by (simp add: os_path_exists_def p)
  show ?thesis
    unfolding p using st by (simp add: os_path_realpath_def)
qed

lemma download_missing:
  assumes "re_match file_id_regex file_id"
    and "\<not> os_path_exists h (path_join (DOWNLOAD_FOLDER h) (file_id @ ''.mp3''))"
  shows "download h stamp file_id =
     (Inl (HTTPException 404 ''File not found. It might still be processing or has expired.''),
      [Realpath (path_join (DOWNLOAD_FOLDER h) (file_id @ ''.mp3'')), Realpath (DOWNLOAD_FOLDER h),
       Exists (path_join (DOWNLOAD_FOLDER h) (file_id @ ''.mp3''))])"
proof -
  have "startswith (os_path_realpath h (path_join (DOWNLOAD_FOLDER h) (file_id @ ''.mp3'')))
          (os_path_realpath h (DOWNLOAD_FOLDER h))"
    unfolding realpath_missing[OF assms] realpath_folder
    by (rule startswith_path_join) (rule file_id_not_absolute[OF assms(1)])
  then show ?thesis
    using assms by (simp add: download_def FileResponse_init_def endswith_any_mp3 Let_def)
qed

lemma example_host_empty:
  "\<not> os_path_exists example_host p"
  by (simp add: os_path_exists_def stat_path_def example_host_def)

text \<open>
  C1. A token passes the lexical check and its path resolves outside the resolved storage
  directory. The handler raises the 403 inside the \<open>try\<close> block, the block's
  \<open>except Exception\<close> clause catches it, and the response is the 400 "Invalid file path"
  of that clause: the 403 never leaves the handler.
\<close>

theorem C1_path_escape_answers_400:
  assumes "re_match file_id_regex file_id"
    and "\<not> startswith (os_path_realpath h (path_join (DOWNLOAD_FOLDER h) (file_id @ ''.mp3'')))
             (os_path_realpath h (DOWNLOAD_FOLDER h))"
  shows "fst (get_download h stamp file_id) =
           \<lparr>status_code = 400, body = Detail ''Invalid file path''\<rparr>"
  by (simp add: get_download_def download_escape[OF assms])

theorem C1_path_escape_witness:
  "re_match file_id_regex example_token \<and>
   os_path_realpath symlink_host (path_join (DOWNLOAD_FOLDER symlink_host) (example_token @ ''.mp3''))
     = ''/etc/passwd'' \<and>
   os_path_realpath symlink_host (DOWNLOAD_FOLDER symlink_host) = ''/srv/app/downloads'' \<and>
   fst (get_download symlink_host ''20240101_120000'' example_token) =
     \<lparr>status_code = 400, body = Detail ''Invalid file path''\<rparr>"
proof -
  have r: "os_path_realpath symlink_host
             (path_join (DOWNLOAD_FOLDER symlink_host) (example_token @ ''.mp3'')) = ''/etc/passwd''"
    by (rule symlink_host_realpath)
  have f: "os_path_realpath symlink_host (DOWNLOAD_FOLDER symlink_host) = ''/srv/app/downloads''"
    by (simp add: realpath_folder symlink_host_def example_host_def)
  have out: "\<not> startswith (os_path_realpath symlink_host
                 (path_join (DOWNLOAD_FOLDER symlink_host) (example_token @ ''.mp3'')))
               (os_path_realpath symlink_host (DOWNLOAD_FOLDER symlink_host))"
    unfolding r f by (simp add: startswith_def)
  show ?thesis
    using C1_path_escape_answers_400[OF example_token_match out] example_token_match r f
    by simp
qed

lemma download_passes:
  assumes "re_match file_id_regex file_id"
  shows "snd (get_download h stamp file_id) \<noteq> [] \<and>
         body (fst (get_download h stamp file_id)) \<noteq> Detail ''Invalid file ID format''"
  using assms
  by (simp add: get_download_def download_def FileResponse_init_def endswith_any_mp3 Let_def split: sum.splits)

text \<open>
  C4. A token of 36 allowed characters followed by a newline has 37 characters, one of
  them outside the class, and yet \<open>$\<close> lets it pass the check: the handler goes on to
  the file system and does not answer "Invalid file ID format". Every token the check
  does reject is answered 400 before any call into the file system
  (\<open>download_rejects\<close>).
\<close>

theorem C4_newline_token_reaches_file_system:
  assumes "fullmatch file_id_regex t"
  shows "length (t @ [newline]) = 37 \<and> newline \<notin> set file_id_chars \<and>
         re_match file_id_regex (t @ [newline]) \<and>
         snd (get_download h stamp (t @ [newline])) \<noteq> [] \<and>
         body (fst (get_download h stamp (t @ [newline]))) \<noteq> Detail ''Invalid file ID format''"
proof -
  from assms have len: "length t = 36"
    by (simp add: file_id_regex_def fullmatch_rrep_Cls)
  have m: "re_match file_id_regex (t @ [newline])"
    using assms by (simp add: re_match_def)
  have nl: "newline \<notin> set file_id_chars"
    by (simp add: newline_def file_id_chars_def)
  show ?thesis
    using len m nl download_passes[OF m, of h stamp] by simp
qed

theorem C4_newline_token_witness:
  "fullmatch file_id_regex example_token \<and> length newline_token = 37 \<and>
   get_download example_host ''20240101_120000'' newline_token =
     (\<lparr>status_code = 404,
       body = Detail ''File not found. It might still be processing or has expired.''\<rparr>,
      [Realpath (path_join ''/srv/app/downloads'' (newline_token @ ''.mp3'')),
       Realpath ''/srv/app/downloads'',
       Exists (path_join ''/srv/app/downloads'' (newline_token @ ''.mp3''))])"
proof -
  have "get_download example_host ''20240101_120000'' newline_token =
     (\<lparr>status_code = 404,
       body = Detail ''File not found. It might still be processing or has expired.''\<rparr>,
      [Realpath (path_join ''/srv/app/downloads'' (newline_token @ ''.mp3'')),
       Realpath ''/srv/app/downloads'',
       Exists (path_join ''/srv/app/downloads'' (newline_token @ ''.mp3''))])"
    using download_missing[OF newline_token_match example_host_empty]
    by (simp add: get_download_def)
  then show ?thesis
    using C4_newline_token_reaches_file_system[OF example_token_ok, of example_host "''20240101_120000''"]
      example_token_ok
    by (simp add: newline_token_def)
qed

text \<open>
  C5. For a token that passes the lexical check and has no file \<open><token>.mp3\<close> in the
  storage directory, GET /download/{token} answers 404.
\<close>

theorem C5_missing_file_answers_404:
  assumes "re_match file_id_regex file_id"
    and "\<not> os_path_exists h (path_join (DOWNLOAD_FOLDER h) (file_id @ ''.mp3''))"
  shows "fst (get_download h stamp file_id) =
           \<lparr>status_code = 404,
            body = Detail ''File not found. It might still be processing or has expired.''\<rparr>"
  by (simp add: get_download_def download_missing[OF assms])

theorem C5_missing_file_witness:
  "re_match file_id_regex example_token \<and>
   \<not> os_path_exists example_host (path_join (DOWNLOAD_FOLDER example_host) (example_token @ ''.mp3'')) \<and>
   status_code (fst (get_download example_host ''20240101_120000'' example_token)) = 404"
  using C5_missing_file_answers_404[OF example_token_match example_host_empty,
          of "''20240101_120000''"]
        example_token_match example_host_empty
  by simp

section \<open>Tokens are 36 characters that the download endpoint accepts\<close>

lemma length_hex32: "length (hex32 w) = 32"
  by (simp add: hex32_def)

lemma length_uuid_str: "length (uuid_str w) = 36"
  by (simp add: uuid_str_def Let_def length_hex32)

lemma hex_digit_in_class:
  "''0123456789abcdef'' ! unat ((x :: 128 word) AND 0xF) \<in> set file_id_chars"
proof -
  have "unat (x AND 0xF) \<le> unat (0xF :: 128 word)"
    by (rule word_le_nat_alt[THEN iffD1]) (rule word_and_le1)
  then have "unat (x AND 0xF) < 16" by simp
  then have "unat (x AND 0xF) \<in> {0..<16}" by simp
  then show ?thesis
    unfolding file_id_chars_def
    by (auto simp: atLeastLessThan_def numeral_eq_Suc less_Suc_eq)
qed

lemma set_hex32: "set (hex32 w) \<subseteq> set file_id_chars"
  unfolding hex32_def using hex_digit_in_class by auto

lemma set_uuid_str: "set (uuid_str w) \<subseteq> set file_id_chars"
proof -
  have "set (take n (hex32 w)) \<subseteq> set file_id_chars" for n
    using set_hex32 set_take_subset by fastforce
  moreover have "set (drop n (hex32 w)) \<subseteq> set file_id_chars" for n
    using set_hex32 set_drop_subset by fastforce
  moreover have "set (take n (drop k (hex32 w))) \<subseteq> set file_id_chars" for n k
    by (meson calculation(2) order_trans set_take_subset)
  moreover have "CHR ''-'' \<in> set file_id_chars"
    by (simp add: file_id_chars_def)
  ultimately show ?thesis
    by (simp add: uuid_str_def Let_def)
qed

lemma uuid_str_match: "re_match file_id_regex (uuid_str w)"
  by (simp add: re_match_file_id length_uuid_str set_uuid_str)

section \<open>Conversion endpoint\<close>

lemma ConvertRequest_init_valid:
  assumes "re_match youtube_regex url"
    and "q \<in> {None, Some ''high'', Some ''medium'', Some ''low''}"
  shows "ConvertRequest_init url q =
           Inr \<lparr>youtube_url = url, quality = (case q of None \<Rightarrow> ''high'' | Some v \<Rightarrow> v)\<rparr>"
  using assms
  by (auto simp: ConvertRequest_init_def validate_youtube_url_def validate_quality_def)

lemma ConvertRequest_init_invalid:
  assumes "\<not> re_match youtube_regex url \<or> q \<notin> {None, Some ''high'', Some ''medium'', Some ''low''}"
  shows "\<exists>ms. ConvertRequest_init url q = Inl (ValidationError ms)"
  using assms
  by (cases q)
     (auto simp: ConvertRequest_init_def validate_youtube_url_def validate_quality_def)

lemma post_convert_invalid:
  assumes "\<not> re_match youtube_regex url \<or> q \<notin> {None, Some ''high'', Some ''medium'', Some ''low''}"
  shows "status_code (fst (post_convert h rnd url q tasks)) = 422 \<and>
         snd (post_convert h rnd url q tasks) = tasks"
proof -
  from ConvertRequest_init_invalid[OF assms] obtain ms
    where "ConvertRequest_init url q = Inl (ValidationError ms)" ..
  then show ?thesis by (simp add: post_convert_def)
qed

lemma post_convert_no_space:
  assumes "re_match youtube_regex url"
    and "q \<in> {None, Some ''high'', Some ''medium'', Some ''low''}"
    and "free_bytes h < 2 * (MAX_FILE_SIZE_MB * 1024 * 1024)"
  shows "post_convert h rnd url q tasks =
           (\<lparr>status_code = 507,
             body = Detail ''Insufficient storage space. Please try again later.''\<rparr>, tasks)"
  using assms(3)
  by (simp add: post_convert_def ConvertRequest_init_valid[OF assms(1,2)] convert_def Let_def
        mult.commute)

lemma post_convert_accepted:
  assumes "re_match youtube_regex url"
    and "q \<in> {None, Some ''high'', Some ''medium'', Some ''low''}"
    and "2 * (MAX_FILE_SIZE_MB * 1024 * 1024) \<le> free_bytes h"
  shows "post_convert h rnd url q tasks =
           (\<lparr>status_code = 200,
             body = ConvertBody
               \<lparr>download_url = ''/download/'' @ uuid_str (uuid4 rnd),
                status = ''processing'',
                message = ''Your file is being processed. Please wait a few moments before downloading.'',
                estimated_wait_time = ''15-30 seconds''\<rparr>\<rparr>,
            tasks @ [DownloadAudio url (case q of None \<Rightarrow> ''high'' | Some v \<Rightarrow> v)
                       (path_join (DOWNLOAD_FOLDER h) (uuid_str (uuid4 rnd) @ ''.mp3''))])"
  using assms(3)
  by (simp add: post_convert_def ConvertRequest_init_valid[OF assms(1,2)] convert_def Let_def
        add_task_def mult.commute not_less[symmetric])

lemma not_a_url: "\<not> re_match youtube_regex ''not-a-url''"
  by code_simp

lemma example_com: "\<not> re_match youtube_regex ''https://example.com/watch?v=x''"
  by code_simp

lemma watch_url: "re_match youtube_regex ''https://www.youtube.com/watch?v=dQw4w9WgXcQ''"
  by code_simp

lemma short_url: "re_match youtube_regex ''https://youtu.be/dQw4w9WgXcQ''"
  by code_simp

lemma uuid4_0: "uuid_str (uuid4 0) = ''00000000-0000-4000-8000-000000000000''"
  by code_simp

text \<open>
  C2 (as amended). A request whose URL does not match the pattern, or whose quality is
  given and is not one of high, medium and low, fails the validation of the request model
  before the handler is called. The framework answers 422, and no job is scheduled.
\<close>

theorem C2_invalid_request_answers_422:
  assumes "\<not> re_match youtube_regex url \<or>
           q \<notin> {None, Some ''high'', Some ''medium'', Some ''low''}"
  shows "status_code (fst (post_convert h rnd url q tasks)) = 422 \<and>
         snd (post_convert h rnd url q tasks) = tasks"
  using assms by (rule post_convert_invalid)

theorem C2_invalid_request_witness:
  "\<not> re_match youtube_regex ''https://example.com/watch?v=x'' \<and>
   status_code (fst (post_convert example_host 0 ''https://example.com/watch?v=x'' (Some ''high'') [])) = 422 \<and>
   Some ''ultra'' \<notin> {None, Some ''high'', Some ''medium'', Some ''low''} \<and>
   status_code (fst (post_convert example_host 0 ''https://youtu.be/dQw4w9WgXcQ'' (Some ''ultra'') [])) = 422"
  using C2_invalid_request_answers_422[of "''https://example.com/watch?v=x''" "Some ''high''" example_host 0 "[]"]
        C2_invalid_request_answers_422[of "''https://youtu.be/dQw4w9WgXcQ''" "Some ''ultra''" example_host 0 "[]"]
        example_com
  by simp

theorem C2_status_400_counterexample:
  "\<not> re_match youtube_regex ''not-a-url'' \<and>
   status_code (fst (post_convert example_host 0 ''not-a-url'' (Some ''high'') [])) \<noteq> 400"
  using post_convert_invalid[of "''not-a-url''" "Some ''high''" example_host 0 "[]"] not_a_url
  by simp

text \<open>
  C3 (as amended). For a request that passes the validation of the request model: if the
  free space is below twice the maximum file size, the response is 507 and no job is
  scheduled; free space of twice the maximum file size or more, equality included, passes
  the guard.
\<close>

theorem C3_storage_guard:
  assumes "re_match youtube_regex url"
    and "q \<in> {None, Some ''high'', Some ''medium'', Some ''low''}"
  shows "(free_bytes h < 2 * (MAX_FILE_SIZE_MB * 1024 * 1024) \<longrightarrow>
            status_code (fst (post_convert h rnd url q tasks)) = 507 \<and>
            snd (post_convert h rnd url q tasks) = tasks) \<and>
         (2 * (MAX_FILE_SIZE_MB * 1024 * 1024) \<le> free_bytes h \<longrightarrow>
            status_code (fst (post_convert h rnd url q tasks)) = 200 \<and>
            length (snd (post_convert h rnd url q tasks)) = Suc (length tasks))"
  using post_convert_no_space[OF assms, of h rnd tasks]
        post_convert_accepted[OF assms, of h rnd tasks]
  by simp

theorem C3_storage_guard_witness:
  "re_match youtube_regex ''https://youtu.be/dQw4w9WgXcQ'' \<and>
   free_bytes (example_host\<lparr>free_bytes := 209715199\<rparr>) < 2 * (MAX_FILE_SIZE_MB * 1024 * 1024) \<and>
   status_code (fst (post_convert (example_host\<lparr>free_bytes := 209715199\<rparr>) 0
                       ''https://youtu.be/dQw4w9WgXcQ'' (Some ''low'') [])) = 507 \<and>
   snd (post_convert (example_host\<lparr>free_bytes := 209715199\<rparr>) 0
          ''https://youtu.be/dQw4w9WgXcQ'' (Some ''low'') []) = [] \<and>
   2 * (MAX_FILE_SIZE_MB * 1024 * 1024) \<le> free_bytes example_host \<and>
   status_code (fst (post_convert example_host 0 ''https://youtu.be/dQw4w9WgXcQ'' (Some ''low'') [])) = 200"
  using C3_storage_guard[OF short_url, of "Some ''low''" "example_host\<lparr>free_bytes := 209715199\<rparr>" 0 "[]"]
        C3_storage_guard[OF short_url, of "Some ''low''" example_host 0 "[]"]
        short_url
  by (simp add: MAX_FILE_SIZE_MB_def example_host_def)

theorem C3_strict_and_every_request_counterexample:
  "\<not> 2 * (MAX_FILE_SIZE_MB * 1024 * 1024) < free_bytes (example_host\<lparr>free_bytes := 209715200\<rparr>) \<and>
   status_code (fst (post_convert (example_host\<lparr>free_bytes := 209715200\<rparr>) 0
                       ''https://youtu.be/dQw4w9WgXcQ'' (Some ''low'') [])) = 200 \<and>
   snd (post_convert (example_host\<lparr>free_bytes := 209715200\<rparr>) 0
          ''https://youtu.be/dQw4w9WgXcQ'' (Some ''low'') []) \<noteq> [] \<and>
   free_bytes (example_host\<lparr>free_bytes := 0\<rparr>) < 2 * (MAX_FILE_SIZE_MB * 1024 * 1024) \<and>
   status_code (fst (post_convert (example_host\<lparr>free_bytes := 0\<rparr>) 0
                       ''not-a-url'' (Some ''low'') [])) \<noteq> 507"
proof -
  have a: "2 * (MAX_FILE_SIZE_MB * 1024 * 1024) \<le> free_bytes (example_host\<lparr>free_bytes := 209715200\<rparr>)"
    by (simp add: MAX_FILE_SIZE_MB_def)
  have q: "Some ''low'' \<in> {None, Some ''high'', Some ''medium'', Some ''low''}" by simp
  show ?thesis
    using post_convert_accepted[OF short_url q a, of 0 "[]"]
          post_convert_invalid[of "''not-a-url''" "Some ''low''" "example_host\<lparr>free_bytes := 0\<rparr>" 0 "[]"]
          not_a_url
    by (simp add: MAX_FILE_SIZE_MB_def)
qed

text \<open>
  C6. For a request with a URL that matches the pattern and a quality that is high,
  medium, low or left out, on a host with free space of at least twice the maximum file
  size, the response is 200 with \<open>download_url\<close> \<open>/download/<token>\<close>, where the token has
  36 characters and passes the download endpoint's check, \<open>status\<close> \<open>processing\<close> and an
  estimated wait time; the extraction job is appended to the background tasks, not run.
\<close>

theorem C6_convert_accepts:
  assumes "re_match youtube_regex url"
    and "q \<in> {None, Some ''high'', Some ''medium'', Some ''low''}"
    and "2 * (MAX_FILE_SIZE_MB * 1024 * 1024) \<le> free_bytes h"
  shows "\<exists>token. length token = 36 \<and> re_match file_id_regex token \<and>
           post_convert h rnd url q tasks =
             (\<lparr>status_code = 200,
               body = ConvertBody
                 \<lparr>download_url = ''/download/'' @ token,
                  status = ''processing'',
                  message = ''Your file is being processed. Please wait a few moments before downloading.'',
                  estimated_wait_time = ''15-30 seconds''\<rparr>\<rparr>,
              tasks @ [DownloadAudio url (case q of None \<Rightarrow> ''high'' | Some v \<Rightarrow> v)
                         (path_join (DOWNLOAD_FOLDER h) (token @ ''.mp3''))])"
  using post_convert_accepted[OF assms, of rnd tasks] length_uuid_str uuid_str_match
  by blast

theorem C6_convert_accepts_witness:
  "re_match youtube_regex ''https://www.youtube.com/watch?v=dQw4w9WgXcQ'' \<and>
   2 * (MAX_FILE_SIZE_MB * 1024 * 1024) \<le> free_bytes example_host \<and>
   (\<exists>token. length token = 36 \<and> re_match file_id_regex token \<and>
      post_convert example_host 0 ''https://www.youtube.com/watch?v=dQw4w9WgXcQ'' None [] =
        (\<lparr>status_code = 200,
          body = ConvertBody
            \<lparr>download_url = ''/download/'' @ token,
             status = ''processing'',
             message = ''Your file is being processed. Please wait a few moments before downloading.'',
             estimated_wait_time = ''15-30 seconds''\<rparr>\<rparr>,
         [DownloadAudio ''https://www.youtube.com/watch?v=dQw4w9WgXcQ'' ''high''
            (path_join (DOWNLOAD_FOLDER example_host) (token @ ''.mp3''))]))"
proof -
  have f: "2 * (MAX_FILE_SIZE_MB * 1024 * 1024) \<le> free_bytes example_host"
    by (simp add: MAX_FILE_SIZE_MB_def example_host_def)
  have q: "None \<in> {None, Some ''high'', Some ''medium'', Some ''low''}" by simp
  show ?thesis
    using C6_convert_accepts[OF watch_url q f, of 0 "[]"] watch_url f by simp
qed

section \<open>Every path ends in the audio extension\<close>

lemma endswith_token_path: "endswith (path_join a (t @ ''.mp3'')) ''.mp3''"
  by (rule endswith_path_join) (rule endswith_append)

lemma convert_tasks:
  "snd (convert h rnd req tasks) = tasks \<or>
   snd (convert h rnd req tasks) =
     tasks @ [DownloadAudio (youtube_url req) (quality req)
                (path_join (DOWNLOAD_FOLDER h) (uuid_str (uuid4 rnd) @ ''.mp3''))]"
  by (simp add: convert_def Let_def add_task_def)

lemma download_served_path:
  "fst (download h stamp file_id) = Inr f \<Longrightarrow>
   served_path f = path_join (DOWNLOAD_FOLDER h) (file_id @ ''.mp3'')"
  by (auto simp: download_def FileResponse_init_def Let_def split: if_splits sum.splits)

lemma stored_host_download:
  "download stored_host ''20240101_120000'' example_token =
     (Inr \<lparr>served_path = ''/srv/app/downloads/123e4567-e89b-42d3-a456-426614174000.mp3'',
           media_type = ''audio/mpeg'',
           suggested_filename = ''youtube_audio_20240101_120000.mp3''\<rparr>,
      [Realpath ''/srv/app/downloads/123e4567-e89b-42d3-a456-426614174000.mp3'',
       Realpath ''/srv/app/downloads'',
       Exists ''/srv/app/downloads/123e4567-e89b-42d3-a456-426614174000.mp3'',
       Access ''/srv/app/downloads/123e4567-e89b-42d3-a456-426614174000.mp3''])"
proof -
  have st: "stat_path stored_host ''/srv/app/downloads/123e4567-e89b-42d3-a456-426614174000.mp3'' =
        Some \<lparr>mtime = 0, fsize = 4000000, readable = True, link_target = None\<rparr>"
    by (simp add: stat_path_def)
       (simp add: stored_host_def example_host_def example_path)
  have rp: "os_path_realpath stored_host ''/srv/app/downloads/123e4567-e89b-42d3-a456-426614174000.mp3'' =
        ''/srv/app/downloads/123e4567-e89b-42d3-a456-426614174000.mp3''"
    by (simp add: os_path_realpath_def st)
       (simp add: stored_host_def example_host_def path_join_def startswith_def endswith_def)
  have rf: "os_path_realpath stored_host ''/srv/app/downloads'' = ''/srv/app/downloads''"
  proof -
    have "folder_realpath stored_host = ''/srv/app/downloads''"
      by (simp add: stored_host_def example_host_def)
    with realpath_folder[of stored_host] show ?thesis by simp
  qed
  show ?thesis
    using example_token_match
    by (simp add: download_def FileResponse_init_def endswith_any_mp3 Let_def example_path rp rf
          os_path_exists_def os_access_R_OK_def st startswith_def)
qed

text \<open>
  C9. The conversion endpoint schedules at most one job, and its destination is
  \<open>DOWNLOAD_FOLDER/<token>.mp3\<close>; the path the download endpoint serves is
  \<open>DOWNLOAD_FOLDER/<token>.mp3\<close>. Both end in \<open>.mp3\<close>, the one allowed extension.
\<close>

theorem C9_paths_end_in_mp3:
  "ALLOWED_EXTENSIONS = [''.mp3''] \<and>
   (snd (convert h rnd req tasks) = tasks \<or>
    (\<exists>p. snd (convert h rnd req tasks) =
            tasks @ [DownloadAudio (youtube_url req) (quality req) p] \<and>
          p = path_join (DOWNLOAD_FOLDER h) (uuid_str (uuid4 rnd) @ ''.mp3'') \<and>
          endswith p ''.mp3'')) \<and>
   (\<forall>f. fst (download h stamp file_id) = Inr f \<longrightarrow>
        served_path f = path_join (DOWNLOAD_FOLDER h) (file_id @ ''.mp3'') \<and>
        endswith (served_path f) ''.mp3'')"
  using convert_tasks[of h rnd req tasks] download_served_path[of h stamp file_id]
  by (auto simp: ALLOWED_EXTENSIONS_def endswith_token_path)

theorem C9_paths_end_in_mp3_witness:
  "snd (convert stored_host 0 \<lparr>youtube_url = ''https://youtu.be/dQw4w9WgXcQ'', quality = ''high''\<rparr> []) =
     [DownloadAudio ''https://youtu.be/dQw4w9WgXcQ'' ''high''
        ''/srv/app/downloads/00000000-0000-4000-8000-000000000000.mp3''] \<and>
   endswith ''/srv/app/downloads/00000000-0000-4000-8000-000000000000.mp3'' ''.mp3'' \<and>
   (\<exists>f. fst (download stored_host ''20240101_120000'' example_token) = Inr f \<and>
        served_path f = ''/srv/app/downloads/123e4567-e89b-42d3-a456-426614174000.mp3'' \<and>
        endswith (served_path f) ''.mp3'')"
proof -
  have c: "snd (convert stored_host 0 \<lparr>youtube_url = ''https://youtu.be/dQw4w9WgXcQ'', quality = ''high''\<rparr> []) =
     [DownloadAudio ''https://youtu.be/dQw4w9WgXcQ'' ''high''
        ''/srv/app/downloads/00000000-0000-4000-8000-000000000000.mp3'']"
    by (simp add: convert_def Let_def add_task_def uuid4_0 MAX_FILE_SIZE_MB_def)
       (simp add: stored_host_def example_host_def path_join_def startswith_def endswith_def)
  have e: "endswith ''/srv/app/downloads/00000000-0000-4000-8000-000000000000.mp3'' ''.mp3''"
    by (simp add: endswith_def)
  have d: "\<exists>f. fst (download stored_host ''20240101_120000'' example_token) = Inr f \<and>
        served_path f = ''/srv/app/downloads/123e4567-e89b-42d3-a456-426614174000.mp3'' \<and>
        endswith (served_path f) ''.mp3''"
    by (simp add: stored_host_download endswith_def)
  show ?thesis
    using C9_paths_end_in_mp3[of stored_host 0
            "\<lparr>youtube_url = ''https://youtu.be/dQw4w9WgXcQ'', quality = ''high''\<rparr>" "[]"
            "''20240101_120000''" example_token]
          c e d
    by blast
qed

section \<open>Retention sweeper\<close>

lemma valid_name_not_absolute: "valid_name n \<Longrightarrow> \<not> startswith n ''/''"
  by (cases n) (auto simp: valid_name_def startswith_def)

lemma entry_path: "valid_name n \<Longrightarrow> path_join (DOWNLOAD_FOLDER h) n = DOWNLOAD_FOLDER h @ ''/'' @ n"
  by (rule path_join_DOWNLOAD_FOLDER) (rule valid_name_not_absolute)

lemma entry_path_inj:
  "valid_name n \<Longrightarrow> valid_name m \<Longrightarrow>
   (path_join (DOWNLOAD_FOLDER h) n = path_join (DOWNLOAD_FOLDER h) m) = (n = m)"
  by (simp add: entry_path)

lemma map_of_entry_paths:
  assumes "list_all valid_name (map fst xs)" and "valid_name n"
  shows "map_of (map (\<lambda>(m, e). (path_join (DOWNLOAD_FOLDER h) m, e)) xs)
           (path_join (DOWNLOAD_FOLDER h) n) = map_of xs n"
  using assms by (induction xs) (auto simp: entry_path_inj)

lemma stat_entry:
  assumes "list_all valid_name (map fst (entries h))" and "valid_name n"
  shows "stat_path h (path_join (DOWNLOAD_FOLDER h) n) = map_of (entries h) n"
  unfolding stat_path_def using assms by (rule map_of_entry_paths)

lemma filter_entry_paths:
  assumes "list_all valid_name (map fst xs)" and "valid_name n"
  shows "filter (\<lambda>(m, e). path_join (DOWNLOAD_FOLDER h) m \<noteq> path_join (DOWNLOAD_FOLDER h) n) xs =
         filter (\<lambda>(m, e). m \<noteq> n) xs"
  using assms by (induction xs) (auto simp: entry_path_inj)

lemma DOWNLOAD_FOLDER_entries [simp]: "DOWNLOAD_FOLDER (h\<lparr>entries := xs\<rparr>) = DOWNLOAD_FOLDER h"
  by (simp add: DOWNLOAD_FOLDER_def)

lemma sweep_files_listed:
  assumes "list_all valid_name (map fst (entries h))"
    and "distinct (map fst (entries h))"
    and "distinct ns"
    and "set ns \<subseteq> fst ` set (entries h)"
  shows "sweep_files now ns h =
           (None, h\<lparr>entries := filter (\<lambda>(n, e). \<not> (n \<in> set ns \<and> expired now (mtime e))) (entries h)\<rparr>)"
  using assms
proof (induction ns arbitrary: h)
  case Nil
  then show ?case by simp
next
  case (Cons n ns)
  from Cons.prems(4) obtain e where ne: "(n, e) \<in> set (entries h)" by auto
  with Cons.prems(1) have vn: "valid_name n"
    by (auto simp: list_all_iff)
  from ne Cons.prems(2) have mo: "map_of (entries h) n = Some e" by simp
  have st: "stat_path h (path_join (DOWNLOAD_FOLDER h) n) = Some e"
    using stat_entry[OF Cons.prems(1) vn] mo by simp
  have uniq: "\<And>m e'. (m, e') \<in> set (entries h) \<Longrightarrow> m = n \<Longrightarrow> e' = e"
    using Cons.prems(2) ne by (meson eq_key_imp_eq_value)
  show ?case
  proof (cases "expired now (mtime e)")
    case True
    let ?h' = "h\<lparr>entries := filter (\<lambda>(m, e). m \<noteq> n) (entries h)\<rparr>"
    have rm: "os_remove h (path_join (DOWNLOAD_FOLDER h) n) = Inr ?h'"
      by (simp add: os_remove_def st filter_entry_paths[OF Cons.prems(1) vn])
    have p1: "list_all valid_name (map fst (entries ?h'))"
      using Cons.prems(1) by (auto simp: list_all_iff)
    have p2: "distinct (map fst (entries ?h'))"
      using Cons.prems(2) by (simp add: distinct_map_filter)
    have p3: "distinct ns" using Cons.prems(3) by simp
    have p4: "set ns \<subseteq> fst ` set (entries ?h')"
      using Cons.prems(3,4) by force
    have "sweep_files now (n # ns) h = sweep_files now ns ?h'"
      using True by (simp add: os_path_getmtime_def st rm)
    also have "\<dots> = (None, ?h'\<lparr>entries :=
        filter (\<lambda>(m, e). \<not> (m \<in> set ns \<and> expired now (mtime e))) (entries ?h')\<rparr>)"
      by (rule Cons.IH[OF p1 p2 p3 p4])
    also have "filter (\<lambda>(m, e). \<not> (m \<in> set ns \<and> expired now (mtime e))) (entries ?h') =
               filter (\<lambda>(m, e). \<not> (m \<in> set (n # ns) \<and> expired now (mtime e))) (entries h)"
      using True uniq by (auto intro!: filter_cong)
    finally show ?thesis by simp
  next
    case False
    have p3: "distinct ns" using Cons.prems(3) by simp
    have p4: "set ns \<subseteq> fst ` set (entries h)" using Cons.prems(4) by simp
    have "sweep_files now (n # ns) h = sweep_files now ns h"
      using False by (simp add: os_path_getmtime_def st)
    also have "\<dots> = (None, h\<lparr>entries :=
        filter (\<lambda>(m, e). \<not> (m \<in> set ns \<and> expired now (mtime e))) (entries h)\<rparr>)"
      by (rule Cons.IH[OF Cons.prems(1,2) p3 p4])
    also have "filter (\<lambda>(m, e). \<not> (m \<in> set ns \<and> expired now (mtime e))) (entries h) =
               filter (\<lambda>(m, e). \<not> (m \<in> set (n # ns) \<and> expired now (mtime e))) (entries h)"
      using False uniq by (auto intro!: filter_cong)
    finally show ?thesis by simp
  qed
qed

lemma cleanup_iteration_wf:
  assumes "wf_host h"
  shows "cleanup_iteration now h =
           \<lparr>host_after_sweep = h\<lparr>entries := filter (\<lambda>(n, e). \<not> expired now (mtime e)) (entries h)\<rparr>,
            caught = None, sleep_seconds = 3600\<rparr>"
proof -
  from assms have a: "list_all valid_name (map fst (entries h))" "distinct (map fst (entries h))"
    by (simp_all add: wf_host_def)
  have b: "set (map fst (entries h)) \<subseteq> fst ` set (entries h)" by simp
  have "filter (\<lambda>(n, e). \<not> (n \<in> set (map fst (entries h)) \<and> expired now (mtime e))) (entries h) =
        filter (\<lambda>(n, e). \<not> expired now (mtime e)) (entries h)"
    by (rule filter_cong) force+
  with sweep_files_listed[OF a a(2) b, of now] show ?thesis
    by (simp add: cleanup_iteration_def os_listdir_def)
qed

lemma cleanup_old_files_sleeps:
  "fst (cleanup_old_files nows h) = replicate (length nows) 3600"
  by (induction nows arbitrary: h)
     (simp_all add: Let_def case_prod_beta cleanup_iteration_def)

text \<open>
  C7. In one sweep over a storage directory (its names distinct, as a directory's are),
  every file whose age, \<open>now\<close> less its last-modified time, exceeds 24 hours is removed,
  every file aged 24 hours or less is kept, and nothing raises; the iteration then sleeps
  3600 seconds, and the loop goes through one such iteration and one such sleep per pass,
  however many passes are observed.
\<close>

theorem C7_sweep_removes_exactly_the_old_files:
  assumes "wf_host h"
  shows "entries (host_after_sweep (cleanup_iteration now h)) =
           filter (\<lambda>(n, e). now - mtime e \<le> 24 * 3600 * 1000000) (entries h) \<and>
         caught (cleanup_iteration now h) = None \<and>
         sleep_seconds (cleanup_iteration now h) = 3600 \<and>
         fst (cleanup_old_files nows h) = replicate (length nows) 3600"
proof -
  have "filter (\<lambda>(n, e). \<not> expired now (mtime e)) (entries h) =
        filter (\<lambda>(n, e). now - mtime e \<le> 24 * 3600 * 1000000) (entries h)"
    by (rule filter_cong)
       (auto simp: expired_def timedelta_hours_def FILE_RETENTION_HOURS_def)
  then show ?thesis
    by (simp add: cleanup_iteration_wf[OF assms] cleanup_old_files_sleeps)
qed

lemma aged_host_wf: "wf_host aged_host"
  by (simp add: wf_host_def aged_host_def example_host_def valid_name_def)

theorem C7_sweep_witness:
  "wf_host aged_host \<and>
   map fst (entries aged_host) = [''old.mp3'', ''day.mp3'', ''new.mp3''] \<and>
   map (\<lambda>(n, e). timedelta_hours 25 - mtime e) (entries aged_host) =
     [timedelta_hours 25, timedelta_hours 24, timedelta_hours 23] \<and>
   map fst (entries (host_after_sweep (cleanup_iteration (timedelta_hours 25) aged_host))) =
     [''day.mp3'', ''new.mp3''] \<and>
   sleep_seconds (cleanup_iteration (timedelta_hours 25) aged_host) = 3600 \<and>
   fst (cleanup_old_files [timedelta_hours 25, timedelta_hours 26] aged_host) = [3600, 3600]"
proof -
  have e: "entries aged_host =
     [(''old.mp3'', \<lparr>mtime = 0, fsize = 1000, readable = True, link_target = None\<rparr>),
      (''day.mp3'', \<lparr>mtime = 3600000000, fsize = 1000, readable = True, link_target = None\<rparr>),
      (''new.mp3'', \<lparr>mtime = 7200000000, fsize = 1000, readable = True, link_target = None\<rparr>)]"
    by (simp add: aged_host_def)
  show ?thesis
    using C7_sweep_removes_exactly_the_old_files[OF aged_host_wf,
            of "timedelta_hours 25" "[timedelta_hours 25, timedelta_hours 26]"]
          aged_host_wf
    by (simp add: e timedelta_hours_def del: cleanup_old_files.simps)
qed

section \<open>Extraction job\<close>

lemma str_nat_100: "str_nat MAX_FILE_SIZE_MB = ''100''"
  by (simp add: MAX_FILE_SIZE_MB_def str_nat.simps)

lemma file_size_over: "(file_size_mb n > of_nat MAX_FILE_SIZE_MB) = (n > 104857600)"
proof -
  have "(of_nat n / (1024 * 1024) > (100 :: rat)) = (of_nat n > (104857600 :: rat))"
    by (simp add: field_simps)
  also have "\<dots> = (n > 104857600)"
    by (metis of_nat_less_iff of_nat_numeral)
  finally show ?thesis by (simp add: file_size_mb_def MAX_FILE_SIZE_MB_def)
qed

lemma os_remove_exists:
  assumes "os_path_exists h p"
  shows "\<exists>h'. os_remove h p = Inr h' \<and> \<not> os_path_exists h' p \<and>
               entries h' = filter (\<lambda>(n, e). path_join (DOWNLOAD_FOLDER h) n \<noteq> p) (entries h)"
proof -
  from assms obtain e where st: "stat_path h p = Some e"
    by (auto simp: os_path_exists_def)
  let ?h' = "h\<lparr>entries := filter (\<lambda>(n, e). path_join (DOWNLOAD_FOLDER h) n \<noteq> p) (entries h)\<rparr>"
  have "map_of (map (\<lambda>(n, e). (path_join (DOWNLOAD_FOLDER h) n, e))
          (filter (\<lambda>(n, e). path_join (DOWNLOAD_FOLDER h) n \<noteq> p) xs)) p = None" for xs
    by (induction xs) auto
  then have "\<not> os_path_exists ?h' p"
    by (simp add: os_path_exists_def stat_path_def)
  moreover have "os_remove h p = Inr ?h'"
    by (simp add: os_remove_def st)
  ultimately show ?thesis by simp
qed

lemma download_audio_tool_failed:
  assumes "quality_options qual = Some opts"
    and "r = run (yt_dlp_command opts filename url) h"
    and "returncode r \<noteq> 0"
  shows "fst (download_audio run h url qual filename) =
           Some (ValueError (''YouTube download failed: '' @ stderr r)) \<and>
         \<not> os_path_exists (snd (download_audio run h url qual filename)) filename"
proof (cases "os_path_exists (host_after_run r) filename")
  case True
  from os_remove_exists[OF True] obtain h' where
    "os_remove (host_after_run r) filename = Inr h'" "\<not> os_path_exists h' filename" by blast
  with assms True show ?thesis
    by (simp add: download_audio_def Let_def)
next
  case False
  with assms show ?thesis
    by (simp add: download_audio_def Let_def)
qed

lemma download_audio_oversize:
  assumes "quality_options qual = Some opts"
    and "r = run (yt_dlp_command opts filename url) h"
    and "returncode r = 0"
    and "os_path_getsize (host_after_run r) filename = Inr n"
    and "n > 100 * 1024 * 1024"
  shows "fst (download_audio run h url qual filename) =
           Some (ValueError ''File size exceeds limit of 100MB'') \<and>
         \<not> os_path_exists (snd (download_audio run h url qual filename)) filename"
proof -
  from assms(4) have ex: "os_path_exists (host_after_run r) filename"
    by (auto simp: os_path_getsize_def os_path_exists_def split: option.splits)
  from os_remove_exists[OF ex] obtain h' where
    "os_remove (host_after_run r) filename = Inr h'" "\<not> os_path_exists h' filename" by blast
  with assms ex show ?thesis
    by (simp add: download_audio_def Let_def file_size_over str_nat_100)
qed

lemma download_audio_kept:
  assumes "quality_options qual = Some opts"
    and "r = run (yt_dlp_command opts filename url) h"
    and "returncode r = 0"
    and "os_path_getsize (host_after_run r) filename = Inr n"
    and "n \<le> 100 * 1024 * 1024"
  shows "download_audio run h url qual filename = (None, host_after_run r)"
proof -
  from assms(4) have ex: "os_path_exists (host_after_run r) filename"
    by (auto simp: os_path_getsize_def os_path_exists_def split: option.splits)
  with assms show ?thesis
    by (simp add: download_audio_def Let_def file_size_over)
qed

text \<open>
  C8. The job runs the tool with a recognised quality. If the tool exits with a non-zero
  status, the job ends with the \<open>ValueError\<close> that carries the tool's standard error; if
  the tool exits with status 0 and leaves more than 100 MB (100 * 1024 * 1024 bytes) at
  the destination, the job ends with the \<open>ValueError\<close> of the size limit. In both cases
  nothing exists at the destination path afterwards.
\<close>

theorem C8_failed_job_leaves_no_file:
  assumes "quality_options qual = Some opts"
    and "r = run (yt_dlp_command opts filename url) h"
  shows "(returncode r \<noteq> 0 \<longrightarrow>
            fst (download_audio run h url qual filename) =
              Some (ValueError (''YouTube download failed: '' @ stderr r)) \<and>
            \<not> os_path_exists (snd (download_audio run h url qual filename)) filename) \<and>
         (returncode r = 0 \<and>
          (\<exists>n. os_path_getsize (host_after_run r) filename = Inr n \<and> n > 100 * 1024 * 1024) \<longrightarrow>
            fst (download_audio run h url qual filename) =
              Some (ValueError ''File size exceeds limit of 100MB'') \<and>
            \<not> os_path_exists (snd (download_audio run h url qual filename)) filename)"
  using assms download_audio_tool_failed[of qual opts r run filename url h]
        download_audio_oversize[of qual opts r run filename url h]
  by blast

lemma example_output_path:
  "path_join (DOWNLOAD_FOLDER example_host) (example_token @ ''.mp3'') = example_output"
  by (simp add: example_path example_output_def)

lemma example_output_stat:
  "stat_path (example_host\<lparr>entries := [(example_token @ ''.mp3'', e)]\<rparr>) example_output = Some e"
  by (simp add: stat_path_def)
     (simp add: example_host_def example_path example_output_def)

theorem C8_failed_job_witness:
  "quality_options ''high'' = Some [''--audio-quality'', ''0''] \<and>
   returncode (failing_tool (yt_dlp_command [''--audio-quality'', ''0''] example_output ''https://youtu.be/dQw4w9WgXcQ'') example_host) = 1 \<and>
   os_path_exists (host_after_run (failing_tool (yt_dlp_command [''--audio-quality'', ''0''] example_output ''https://youtu.be/dQw4w9WgXcQ'') example_host)) example_output \<and>
   fst (download_audio failing_tool example_host ''https://youtu.be/dQw4w9WgXcQ'' ''high'' example_output) =
     Some (ValueError ''YouTube download failed: ERROR: Video unavailable'') \<and>
   \<not> os_path_exists (snd (download_audio failing_tool example_host ''https://youtu.be/dQw4w9WgXcQ'' ''high'' example_output)) example_output \<and>
   returncode (oversize_tool (yt_dlp_command [''--audio-quality'', ''0''] example_output ''https://youtu.be/dQw4w9WgXcQ'') example_host) = 0 \<and>
   os_path_getsize (host_after_run (oversize_tool (yt_dlp_command [''--audio-quality'', ''0''] example_output ''https://youtu.be/dQw4w9WgXcQ'') example_host)) example_output = Inr 209715200 \<and>
   fst (download_audio oversize_tool example_host ''https://youtu.be/dQw4w9WgXcQ'' ''high'' example_output) =
     Some (ValueError ''File size exceeds limit of 100MB'') \<and>
   \<not> os_path_exists (snd (download_audio oversize_tool example_host ''https://youtu.be/dQw4w9WgXcQ'' ''high'' example_output)) example_output"
proof -
  let ?cmd = "yt_dlp_command [''--audio-quality'', ''0''] example_output ''https://youtu.be/dQw4w9WgXcQ''"
  have q: "quality_options ''high'' = Some [''--audio-quality'', ''0'']"
    by (simp add: quality_options_def)
  have e0: "entries example_host = []" by (simp add: example_host_def)
  have f1: "returncode (failing_tool ?cmd example_host) = 1"
    by (simp add: failing_tool_def)
  have f2: "os_path_exists (host_after_run (failing_tool ?cmd example_host)) example_output"
    by (simp add: failing_tool_def os_path_exists_def e0 example_output_stat)
  have o1: "returncode (oversize_tool ?cmd example_host) = 0"
    by (simp add: oversize_tool_def)
  have o2: "os_path_getsize (host_after_run (oversize_tool ?cmd example_host)) example_output = Inr 209715200"
    by (simp add: oversize_tool_def os_path_getsize_def e0 example_output_stat)
  have s: "stderr (failing_tool ?cmd example_host) = ''ERROR: Video unavailable''"
    by (simp add: failing_tool_def)
  show ?thesis
    using C8_failed_job_leaves_no_file[of "''high''" "[''--audio-quality'', ''0'']"
            "failing_tool ?cmd example_host" failing_tool example_output
            "''https://youtu.be/dQw4w9WgXcQ''" example_host]
          C8_failed_job_leaves_no_file[of "''high''" "[''--audio-quality'', ''0'']"
            "oversize_tool ?cmd example_host" oversize_tool example_output
            "''https://youtu.be/dQw4w9WgXcQ''" example_host]
          q f1 f2 o1 o2 s
    by simp
qed

end
